theory Spec2Isabelle
  imports Main "HOL-Library.Word"
begin

unbundle bit_operations_syntax

section \<open>Values of the Go runtime and of package net\<close>

text \<open>
  The plugin (\<^verbatim>\<open>src/unnamed/part_000\<close>) is a Go program. Its errors are Go \<^verbatim>\<open>error\<close>
  values. Three kinds matter to the program: a kernel error number
  (\<^verbatim>\<open>syscall.Errno\<close>), an opaque error made by a collaborator (\<^verbatim>\<open>errors.New\<close>), and an
  error made by \<^verbatim>\<open>fmt.Errorf\<close>. The last is kept as the call is written in the source:
  the format string and the arguments, in order. The remaining constructors are the errors
  that the specification names for the helpers of package \<^verbatim>\<open>util\<close>.
\<close>

type_synonym byte = "8 word"
type_synonym IP = "byte list"
type_synonym IPMask = "byte list"

record IPNet =
  IP :: IP
  Mask :: IPMask

datatype error =
    Errno nat
  | ErrorNew string
  | Errorf string "fmtarg list"
  | NamespaceOpenError string error
  | NamespaceEnterError string error
  | NamespaceRestoreError error "error option"
  | LinkCreateError string error
  | LinkDeleteError string error
and fmtarg =
    ArgStr string
  | ArgStrs "string list"
  | ArgIPNet IPNet
  | ArgErr error

definition EPERM :: nat where "EPERM = 1"
definition ENODEV :: nat where "ENODEV = 19"
definition EEXIST :: nat where "EEXIST = 17"

text \<open>
  \<^verbatim>\<open>os.IsExist(err)\<close>: true for the kernel's "file exists" error number, false for
  \<^verbatim>\<open>nil\<close> and for every error built by \<^verbatim>\<open>fmt.Errorf\<close> or \<^verbatim>\<open>errors.New\<close>.
\<close>

fun IsExist :: "error option \<Rightarrow> bool" where
  "IsExist (Some (Errno n)) = (n = EEXIST)"
| "IsExist _ = False"

subsection \<open>\<^verbatim>\<open>net.CIDRMask\<close> and \<^verbatim>\<open>(*net.IPNet).String\<close>\<close>

text \<open>
  \<^verbatim>\<open>CIDRMask(ones, bits)\<close> gives \<^verbatim>\<open>bits/8\<close> bytes whose first \<^verbatim>\<open>ones\<close> bits are set; it
  gives the empty (\<^verbatim>\<open>nil\<close>) mask when \<^verbatim>\<open>bits\<close> is neither 32 nor 128 or \<^verbatim>\<open>ones\<close> is out of
  range. The byte loop is \<open>maskBytes\<close>: \<open>l\<close> bytes remain, \<open>n\<close> bits are still to set.
\<close>

fun maskBytes :: "nat \<Rightarrow> nat \<Rightarrow> IPMask" where
  "maskBytes 0 n = []"
| "maskBytes (Suc l) n =
     (if 8 \<le> n then 0xff # maskBytes l (n - 8)
      else NOT (drop_bit n (0xff :: byte)) # maskBytes l 0)"

definition CIDRMask :: "int \<Rightarrow> int \<Rightarrow> IPMask" where
  "CIDRMask ones bits =
     (if bits \<noteq> 32 \<and> bits \<noteq> 128 then []
      else if ones < 0 \<or> bits < ones then []
      else maskBytes (nat (bits div 8)) (nat ones))"

text \<open>\<^verbatim>\<open>IP.To4\<close>: the 4-byte form of an IPv4 or IPv4-mapped address, if there is one.\<close>

definition To4 :: "IP \<Rightarrow> IP option" where
  "To4 ip =
     (if length ip = 4 then Some ip
      else if length ip = 16 \<and> take 10 ip = replicate 10 0 \<and> ip ! 10 = 0xff \<and> ip ! 11 = 0xff
      then Some (drop 12 ip)
      else None)"

text \<open>Decimal digits of a number (\<^verbatim>\<open>itod\<close>, \<^verbatim>\<open>uitoa\<close>).\<close>

fun itoa :: "nat \<Rightarrow> string" where
  "itoa n = (if n < 10 then [''0123456789'' ! n] else itoa (n div 10) @ [''0123456789'' ! (n mod 10)])"

fun dotted :: "IP \<Rightarrow> string" where
  "dotted [] = []"
| "dotted [b] = itoa (unat b)"
| "dotted (b # bs) = itoa (unat b) @ ''.'' @ dotted bs"

text \<open>
  \<^verbatim>\<open>simpleMaskLength\<close>: the number of leading one bits of a mask made of ones followed by
  zeros, and \<open>None\<close> (Go's \<^verbatim>\<open>-1\<close>) for any other mask. \<open>leadingOnes\<close> is the inner loop
  \<^verbatim>\<open>for v&0x80 != 0 { n++; v <<= 1 }\<close>, which ends within eight rounds on a byte.
\<close>

fun leadingOnes :: "nat \<Rightarrow> byte \<Rightarrow> nat \<times> byte" where
  "leadingOnes 0 v = (0, v)"
| "leadingOnes (Suc k) v =
     (if v AND 0x80 \<noteq> 0 then (case leadingOnes k (push_bit 1 v) of (n, v') \<Rightarrow> (Suc n, v'))
      else (0, v))"

fun simpleMaskLength :: "IPMask \<Rightarrow> nat option" where
  "simpleMaskLength [] = Some 0"
| "simpleMaskLength (v # rest) =
     (if v = 0xff then map_option (\<lambda>n. 8 + n) (simpleMaskLength rest)
      else (case leadingOnes 8 v of (n, v') \<Rightarrow>
        if v' \<noteq> 0 then None
        else if list_ex (\<lambda>b. b \<noteq> 0) rest then None
        else Some n))"

fun hexByte :: "byte \<Rightarrow> string" where
  "hexByte b = [''0123456789abcdef'' ! (unat b div 16), ''0123456789abcdef'' ! (unat b mod 16)]"

text \<open>
  \<^verbatim>\<open>networkNumberAndMask\<close> and \<^verbatim>\<open>(*IPNet).String\<close>. A net prints as \<^verbatim>\<open><nil>\<close> when its
  address is neither 4 nor 16 bytes long or does not fit its mask. A net whose address is a
  genuine 16-byte IPv6 address would print in IPv6 notation; the plugin handles IPv4
  point-to-point links only and never prints such a net (the only mask it builds is
  \<^verbatim>\<open>CIDRMask(31, 32)\<close>, four bytes long), so the IPv6 notation is left unspecified here.
\<close>

definition networkNumberAndMask :: "IPNet \<Rightarrow> (IP \<times> IPMask) option" where
  "networkNumberAndMask n =
     (case (case To4 (IP n) of Some ip4 \<Rightarrow> Some ip4
            | None \<Rightarrow> if length (IP n) \<noteq> 16 then None else Some (IP n)) of
        None \<Rightarrow> None
      | Some ip \<Rightarrow>
          if length (Mask n) = 4 then (if length ip \<noteq> 4 then None else Some (ip, Mask n))
          else if length (Mask n) = 16
          then (if length ip = 4 then Some (ip, drop 12 (Mask n)) else Some (ip, Mask n))
          else None)"

definition IP_String :: "IP \<Rightarrow> string" where
  "IP_String ip = (if length ip = 4 then dotted ip else undefined)"

definition IPNet_String :: "IPNet \<Rightarrow> string" where
  "IPNet_String n =
     (case networkNumberAndMask n of
        None \<Rightarrow> ''<nil>''
      | Some (nn, m) \<Rightarrow>
          (case simpleMaskLength m of
             None \<Rightarrow> IP_String nn @ ''/'' @ concat (map hexByte m)
           | Some l \<Rightarrow> IP_String nn @ ''/'' @ itoa l))"


section \<open>The plugin's collaborators\<close>

text \<open>
  The plugin calls into packages whose code is not part of the two source files:
  \<^verbatim>\<open>types.NewUUID\<close>, \<^verbatim>\<open>util.LoadNet\<close>, \<^verbatim>\<open>ipam.AllocPtP\<close>, \<^verbatim>\<open>util.SetupVeth\<close>,
  \<^verbatim>\<open>util.ParseCIDR\<close>, \<^verbatim>\<open>util.AddRoute\<close>, \<^verbatim>\<open>util.AddHostRoute\<close>,
  \<^verbatim>\<open>util.DelLinkByName\<close>, \<^verbatim>\<open>netlink.LinkByName\<close>, \<^verbatim>\<open>netlink.AddrAdd\<close>, and the system
  calls under \<^verbatim>\<open>util.WithNetNSPath\<close>. They are parameters of the model: a record \<open>deps\<close> of
  functions over a world \<open>'w\<close> (kernel, file system, allocator store) that the plugin never
  inspects. A collaborator that has an effect takes the world and returns the new one.
\<close>

type_synonym UUID = "byte list"
type_synonym File = nat

record Net =
  Routes :: "string list"

record Link =
  Name :: string
  Index :: nat

record Addr =
  addr_IPNet :: IPNet
  addr_Label :: string

record 'w deps =
  NewUUID :: "string \<Rightarrow> error + UUID"
  LoadNet :: "string \<Rightarrow> 'w \<Rightarrow> (error + Net) \<times> 'w"
  AllocPtP :: "UUID \<Rightarrow> string \<Rightarrow> string \<Rightarrow> string \<Rightarrow> 'w \<Rightarrow> (error + IP list) \<times> 'w"
  OpenNS :: "string \<Rightarrow> 'w \<Rightarrow> (error + File) \<times> 'w"
  CurrentNS :: "'w \<Rightarrow> File"
  SetNS :: "File \<Rightarrow> 'w \<Rightarrow> error option \<times> 'w"
  SetupVeth :: "string \<Rightarrow> string \<Rightarrow> IPNet \<Rightarrow> File \<Rightarrow> 'w \<Rightarrow> (error + Link \<times> Link) \<times> 'w"
  ParseCIDR :: "string \<Rightarrow> error + IPNet"
  AddRoute :: "IPNet \<Rightarrow> IP \<Rightarrow> Link \<Rightarrow> 'w \<Rightarrow> error option \<times> 'w"
  AddHostRoute :: "IPNet \<Rightarrow> IP option \<Rightarrow> Link \<Rightarrow> 'w \<Rightarrow> error option \<times> 'w"
  LinkByName :: "string \<Rightarrow> 'w \<Rightarrow> (error + Link) \<times> 'w"
  AddrAdd :: "Link \<Rightarrow> Addr \<Rightarrow> 'w \<Rightarrow> error option \<times> 'w"
  DelLinkByName :: "string \<Rightarrow> 'w \<Rightarrow> error option \<times> 'w"

text \<open>
  The state of one run of the process: the world, what was written to standard output
  (\<^verbatim>\<open>fmt.Print\<close>), what was written through package \<^verbatim>\<open>log\<close>, and \<open>calls\<close>, the list of the
  collaborator calls made so far, in order. \<open>calls\<close> is a record of what the program did;
  no branch of the program reads it.
\<close>

datatype call =
    CallLoadNet string
  | CallAllocPtP UUID string string string
  | CallOpenNS string
  | CallSetNS File
  | CallSetupVeth string string IPNet File
  | CallAddRoute IPNet IP Link
  | CallLinkByName string
  | CallAddrAdd Link Addr
  | CallAddHostRoute IPNet "IP option" Link
  | CallDelLinkByName string

datatype logline =
    LogPrintf string "fmtarg list"
  | LogPrint "fmtarg list"

record 'w state =
  world :: 'w
  out :: "string list"
  logged :: "logline list"
  calls :: "call list"

definition invoke :: "call \<Rightarrow> ('w \<Rightarrow> 'r \<times> 'w) \<Rightarrow> 'w state \<Rightarrow> 'r \<times> 'w state" where
  "invoke c f st =
     (case f (world st) of (r, w') \<Rightarrow> (r, st\<lparr>world := w', calls := calls st @ [c]\<rparr>))"

definition Print :: "string \<Rightarrow> 'w state \<Rightarrow> 'w state" where
  "Print s st = st\<lparr>out := out st @ [s]\<rparr>"

definition Log :: "logline \<Rightarrow> 'w state \<Rightarrow> 'w state" where
  "Log l st = st\<lparr>logged := logged st @ [l]\<rparr>"

subsection \<open>The namespace executor\<close>

text \<open>
  Modelled from the spec: \<^verbatim>\<open>util.WithNetNSPath\<close>, whose code is not among the source files.
  Section 4.4: it captures a handle to the caller's current namespace, switches to the
  namespace at \<open>nspath\<close> (\<open>NamespaceOpenError\<close> if the path cannot be opened,
  \<open>NamespaceEnterError\<close> if the kernel rejects the switch), invokes the callback with the
  captured handle and, whether the callback succeeds or fails, restores the captured
  namespace before returning. It returns the callback's error if the restoration succeeded
  and an error of its own, carrying the callback's, if the restoration failed.
  The callback is a closure: \<open>'v\<close> is the value of the variables it captures.
\<close>

definition WithNetNSPath ::
  "'w deps \<Rightarrow> string \<Rightarrow> (File \<Rightarrow> 'w state \<times> 'v \<Rightarrow> error option \<times> 'w state \<times> 'v)
     \<Rightarrow> 'w state \<times> 'v \<Rightarrow> error option \<times> 'w state \<times> 'v" where
  "WithNetNSPath d nspath f = (\<lambda>(st, v).
     (let thisNS = CurrentNS d (world st) in
     (case invoke (CallOpenNS nspath) (OpenNS d nspath) st of
        (Inl err, st1) \<Rightarrow> (Some (NamespaceOpenError nspath err), st1, v)
      | (Inr ns, st1) \<Rightarrow>
     (case invoke (CallSetNS ns) (SetNS d ns) st1 of
        (Some err, st2) \<Rightarrow> (Some (NamespaceEnterError nspath err), st2, v)
      | (None, st2) \<Rightarrow>
     (case f thisNS (st2, v) of (r, st3, v') \<Rightarrow>
     (case invoke (CallSetNS thisNS) (SetNS d thisNS) st3 of
        (Some err, st4) \<Rightarrow> (Some (NamespaceRestoreError err r), st4, v')
      | (None, st4) \<Rightarrow> (r, st4, v')))))))"

section \<open>The plugin: \<^verbatim>\<open>cmdAdd\<close>, \<^verbatim>\<open>cmdDel\<close>, \<^verbatim>\<open>main\<close>\<close>

text \<open>
  A Go function call either returns or panics. \<open>Done\<close> is the return of a \<^verbatim>\<open>nil\<close> error,
  \<open>Fail e\<close> the return of the error \<open>e\<close>, \<open>Panic\<close> a run-time panic.
\<close>

datatype outcome = Done | Fail error | Panic string

text \<open>
  The loop of \<^verbatim>\<open>cmdAdd\<close> over \<^verbatim>\<open>conf.Routes\<close> (source lines 71 to 80): each entry is
  parsed and its route installed before the next entry is looked at.
\<close>

fun addRoutes :: "'w deps \<Rightarrow> IP \<Rightarrow> Link \<Rightarrow> string list \<Rightarrow> 'w state \<Rightarrow> error option \<times> 'w state" where
  "addRoutes d hostIP contVeth [] st = (None, st)"
| "addRoutes d hostIP contVeth (r # rs) st =
     (case ParseCIDR d r of
        Inl err \<Rightarrow> (Some (Errorf ''failed to parse route %q: %v'' [ArgStr r, ArgErr err]), st)
      | Inr dst \<Rightarrow>
          (case invoke (CallAddRoute dst hostIP contVeth) (AddRoute d dst hostIP contVeth) st of
             (Some err, st1) \<Rightarrow>
               (Some (Errorf ''failed to add route %q: %v'' [ArgIPNet dst, ArgErr err]), st1)
           | (None, st1) \<Rightarrow> addRoutes d hostIP contVeth rs st1))"

text \<open>
  The function literal passed to \<^verbatim>\<open>WithNetNSPath\<close> (source lines 58 to 86). It captures
  \<^verbatim>\<open>hostVethName\<close> and \<^verbatim>\<open>contIPNet\<close>, the pair \<open>v\<close>, and assigns them only on its last two
  lines.
\<close>

definition addCallback ::
  "'w deps \<Rightarrow> string \<Rightarrow> string \<Rightarrow> Net \<Rightarrow> IP \<Rightarrow> IP \<Rightarrow> File
     \<Rightarrow> 'w state \<times> string \<times> string \<Rightarrow> error option \<times> 'w state \<times> string \<times> string" where
  "addCallback d contID ifName conf hostIP contIP hostNS = (\<lambda>(st, v).
     (let entropy = contID @ ifName;
          ipn = \<lparr>IP = contIP, Mask = CIDRMask 31 32\<rparr>
      in
      (case invoke (CallSetupVeth entropy ifName ipn hostNS)
              (SetupVeth d entropy ifName ipn hostNS) st of
         (Inl err, st1) \<Rightarrow> (Some err, st1, v)
       | (Inr (hostVeth, contVeth), st1) \<Rightarrow>
           (case addRoutes d hostIP contVeth (Routes conf) st1 of
              (Some err, st2) \<Rightarrow> (Some err, st2, v)
            | (None, st2) \<Rightarrow> (None, st2, (Name hostVeth, IPNet_String ipn))))))"

text \<open>
  \<^verbatim>\<open>cmdAdd\<close> (source lines 38 to 114). \<^verbatim>\<open>hostIP, contIP := ips[0], ips[1]\<close> panics with
  an index out of range when the slice has fewer than two elements.
\<close>

definition cmdAdd ::
  "'w deps \<Rightarrow> string \<Rightarrow> string \<Rightarrow> string \<Rightarrow> string \<Rightarrow> string \<Rightarrow> 'w state \<Rightarrow> outcome \<times> 'w state" where
  "cmdAdd d contID netns netConf ifName args st =
     (case NewUUID d contID of
        Inl err \<Rightarrow> (Fail (Errorf ''error parsing ContainerID: %v'' [ArgErr err]), st)
      | Inr cid \<Rightarrow>
     (case invoke (CallLoadNet netConf) (LoadNet d netConf) st of
        (Inl err, st1) \<Rightarrow> (Fail (Errorf ''failed to load %q: %v'' [ArgStr netConf, ArgErr err]), st1)
      | (Inr conf, st1) \<Rightarrow>
     (case invoke (CallAllocPtP cid netConf ifName args) (AllocPtP d cid netConf ifName args) st1 of
        (Inl err, st2) \<Rightarrow> (Fail err, st2)
      | (Inr ips, st2) \<Rightarrow>
     if length ips < 2 then (Panic ''runtime error: index out of range'', st2)
     else
     (let hostIP = ips ! 0; contIP = ips ! 1 in
     (case WithNetNSPath d netns (addCallback d contID ifName conf hostIP contIP)
             (st2, ('''', '''')) of
        (Some err, st3, v) \<Rightarrow> (Fail err, st3)
      | (None, st3, (hostVethName, contIPNet)) \<Rightarrow>
     (case invoke (CallLinkByName hostVethName) (LinkByName d hostVethName) st3 of
        (Inl err, st4) \<Rightarrow>
          (Fail (Errorf ''failed to lookup %q: %v'' [ArgStr hostVethName, ArgErr err]), st4)
      | (Inr hostVeth, st4) \<Rightarrow>
     (let ipn = \<lparr>IP = hostIP, Mask = CIDRMask 31 32\<rparr>;
          addr = \<lparr>addr_IPNet = ipn, addr_Label = ''''\<rparr>
      in
     (case invoke (CallAddrAdd hostVeth addr) (AddrAdd d hostVeth addr) st4 of
        (Some err, st5) \<Rightarrow> (Fail (Errorf ''failed to add IP addr to veth: %v'' [ArgErr err]), st5)
      | (None, st5) \<Rightarrow>
     (case invoke (CallAddHostRoute ipn None hostVeth) (AddHostRoute d ipn None hostVeth) st5 of
        (err, st6) \<Rightarrow>
          if err \<noteq> None \<and> \<not> IsExist err
          then (Fail (Errorf ''failed to add route on host: %v'' [ArgErr (the err)]), st6)
          else (Done, Print contIPNet st6))))))))))"

text \<open>\<^verbatim>\<open>cmdDel\<close> (source lines 116 to 120); its callback captures nothing.\<close>

definition cmdDel ::
  "'w deps \<Rightarrow> string \<Rightarrow> string \<Rightarrow> string \<Rightarrow> string \<Rightarrow> string \<Rightarrow> 'w state \<Rightarrow> outcome \<times> 'w state" where
  "cmdDel d contID netns netConf ifName args st =
     (case WithNetNSPath d netns
             (\<lambda>hostNS (s, v). case invoke (CallDelLinkByName ifName) (DelLinkByName d ifName) s of
                 (r, s') \<Rightarrow> (r, s', v))
             (st, ()) of
        (None, st', v) \<Rightarrow> (Done, st')
      | (Some err, st', v) \<Rightarrow> (Fail err, st'))"

text \<open>
  The process. \<^verbatim>\<open>os.Getenv\<close> gives the empty string for a variable that is not set;
  \<^verbatim>\<open>os.Environ\<close> lists the environment as \<^verbatim>\<open>key=value\<close> strings. A process ends by
  \<^verbatim>\<open>os.Exit(n)\<close>, by returning from \<^verbatim>\<open>main\<close> (status 0), or by a panic, after which the Go
  runtime exits with status 2.
\<close>

definition Getenv :: "(string \<times> string) list \<Rightarrow> string \<Rightarrow> string" where
  "Getenv environ key = (case map_of environ key of None \<Rightarrow> '''' | Some v \<Rightarrow> v)"

definition Environ :: "(string \<times> string) list \<Rightarrow> string list" where
  "Environ environ = map (\<lambda>(k, v). k @ ''='' @ v) environ"

datatype exit = Exit nat | Crash string

fun status :: "exit \<Rightarrow> nat" where
  "status (Exit n) = n"
| "status (Crash m) = 2"

text \<open>
  \<^verbatim>\<open>main\<close> (source lines 122 to 154). \<open>argv\<close> is \<^verbatim>\<open>os.Args\<close>. The arguments of
  \<^verbatim>\<open>log.Printf("%v: %v", os.Args[1], err)\<close> are evaluated before the call, so the line
  panics before anything is logged when the process was started without arguments.
\<close>

definition main ::
  "'w deps \<Rightarrow> (string \<times> string) list \<Rightarrow> string list \<Rightarrow> 'w state \<Rightarrow> exit \<times> 'w state" where
  "main d environ argv st =
     (let cmd = Getenv environ ''RKT_NETPLUGIN_COMMAND'';
          contID = Getenv environ ''RKT_NETPLUGIN_CONTID'';
          netns = Getenv environ ''RKT_NETPLUGIN_NETNS'';
          args = Getenv environ ''RKT_NETPLUGIN_ARGS'';
          ifName = Getenv environ ''RKT_NETPLUGIN_IFNAME'';
          netConf = Getenv environ ''RKT_NETPLUGIN_NETCONF''
      in
      if cmd = '''' \<or> contID = '''' \<or> netns = '''' \<or> ifName = '''' \<or> netConf = ''''
      then (Exit 1,
            Log (LogPrint [ArgStr ''Env: '', ArgStrs (Environ environ)])
              (Log (LogPrintf ''Required env variable missing'' []) st))
      else
        (case (if cmd = ''ADD'' then Some (cmdAdd d contID netns netConf ifName args st)
               else if cmd = ''DEL'' then Some (cmdDel d contID netns netConf ifName args st)
               else None) of
           None \<Rightarrow> (Exit 1, Log (LogPrintf ''Unknown RKT_NETPLUGIN_COMMAND: %v'' [ArgStr cmd]) st)
         | Some (Panic m, st') \<Rightarrow> (Crash m, st')
         | Some (Done, st') \<Rightarrow> (Exit 0, st')
         | Some (Fail err, st') \<Rightarrow>
             if length argv < 2 then (Crash ''runtime error: index out of range'', st')
             else (Exit 1, Log (LogPrintf ''%v: %v'' [ArgStr (argv ! 1), ArgErr err]) st')))"


section \<open>A reference world\<close>

text \<open>
  One world to run the plugin in: network namespaces holding interfaces and routes, the
  namespace files, the network configurations, an allocator, and a table \<open>rejects\<close> of the
  kernel operations that fail and the error number each fails with. The collaborators
  \<open>refdeps\<close> over this world follow the contracts of the specification (sections 2, 4.3,
  4.5, 4.6 and 6); the theorems about \<^verbatim>\<open>cmdAdd\<close> and \<^verbatim>\<open>main\<close> hold for every
  collaborator record and use this one only to run the program on concrete inputs.
\<close>

record iface =
  if_name :: string
  if_index :: nat
  if_addrs :: "IPNet list"

record route =
  rt_dst :: IPNet
  rt_gw :: "IP option"
  rt_dev :: nat

record netns =
  ifaces :: "iface list"
  routes :: "route list"

datatype kop =
    KSetNS nat
  | KVeth string string
  | KRouteAdd IPNet
  | KAddrAdd nat
  | KLinkDel string

record kernel =
  cur :: nat
  spaces :: "nat \<Rightarrow> netns"
  nsfiles :: "string \<Rightarrow> nat option"
  netconfs :: "string \<Rightarrow> Net option"
  allocator :: "UUID \<Rightarrow> string \<Rightarrow> string \<Rightarrow> string \<Rightarrow> error + IP list"
  vethname :: "string \<Rightarrow> string"
  rejects :: "kop \<Rightarrow> nat option"

definition ENOENT :: nat where "ENOENT = 2"

definition by_name :: "string \<Rightarrow> iface list \<Rightarrow> iface option" where
  "by_name n ifs = find (\<lambda>i. if_name i = n) ifs"

definition by_index :: "nat \<Rightarrow> iface list \<Rightarrow> iface option" where
  "by_index x ifs = find (\<lambda>i. if_index i = x) ifs"

definition fresh_index :: "iface list \<Rightarrow> nat" where
  "fresh_index ifs = Suc (fold max (map if_index ifs) 0)"

definition in_ns :: "nat \<Rightarrow> (netns \<Rightarrow> netns) \<Rightarrow> kernel \<Rightarrow> kernel" where
  "in_ns n f k = k\<lparr>spaces := (spaces k)(n := f (spaces k n))\<rparr>"

subsection \<open>Container identities and route texts\<close>

text \<open>
  \<^verbatim>\<open>types.NewUUID\<close> of the appc schema: the dashes are dropped, and what remains must be
  32 hexadecimal digits.
\<close>

fun index_of :: "'a \<Rightarrow> 'a list \<Rightarrow> nat option" where
  "index_of x [] = None"
| "index_of x (y # ys) = (if x = y then Some 0 else map_option Suc (index_of x ys))"

definition hexval :: "char \<Rightarrow> nat option" where
  "hexval c =
     (case index_of c ''0123456789abcdef'' of
        Some n \<Rightarrow> Some n
      | None \<Rightarrow> map_option (\<lambda>n. n + 10) (index_of c ''ABCDEF''))"

fun hexbytes :: "string \<Rightarrow> byte list option" where
  "hexbytes [] = Some []"
| "hexbytes [a] = None"
| "hexbytes (a # b # r) =
     (case (hexval a, hexval b, hexbytes r) of
        (Some x, Some y, Some bs) \<Rightarrow> Some (of_nat (16 * x + y) # bs)
      | _ \<Rightarrow> None)"

definition refNewUUID :: "string \<Rightarrow> error + UUID" where
  "refNewUUID s =
     (let t = filter (\<lambda>c. c \<noteq> CHR ''-'') s in
      if length t \<noteq> 32 then Inl (ErrorNew ''bad UUID length != 32'')
      else (case hexbytes t of
              None \<Rightarrow> Inl (ErrorNew ''encoding/hex: invalid byte'')
            | Some bs \<Rightarrow> Inr bs))"

text \<open>
  Modelled from the spec: \<^verbatim>\<open>util.ParseCIDR\<close>, whose code is not among the source files.
  Section 4.6: strict CIDR parsing, an error on malformed input. The specification leaves
  IPv6 out, so a route text is \<^verbatim>\<open>a.b.c.d/n\<close>: four decimal numbers up to 255 and a prefix
  length up to 32. The result is the network: the address under the mask.
\<close>

fun split_on :: "char \<Rightarrow> string \<Rightarrow> string list" where
  "split_on c [] = [[]]"
| "split_on c (x # xs) =
     (if x = c then [] # split_on c xs
      else (case split_on c xs of [] \<Rightarrow> [[x]] | p # ps \<Rightarrow> (x # p) # ps))"

fun dtoi_acc :: "nat \<Rightarrow> string \<Rightarrow> nat option" where
  "dtoi_acc n [] = Some n"
| "dtoi_acc n (c # cs) =
     (case index_of c ''0123456789'' of
        None \<Rightarrow> None
      | Some v \<Rightarrow> dtoi_acc (10 * n + v) cs)"

definition dtoi :: "string \<Rightarrow> nat option" where
  "dtoi s = (if s = [] \<or> 3 < length s then None else dtoi_acc 0 s)"

fun parse_octets :: "string list \<Rightarrow> IP option" where
  "parse_octets [] = Some []"
| "parse_octets (p # ps) =
     (case (dtoi p, parse_octets ps) of
        (Some n, Some bs) \<Rightarrow> if n \<le> 255 then Some (of_nat n # bs) else None
      | _ \<Rightarrow> None)"

definition parseIPv4 :: "string \<Rightarrow> IP option" where
  "parseIPv4 s =
     (let ps = split_on (CHR ''.'') s in if length ps \<noteq> 4 then None else parse_octets ps)"

definition refParseCIDR :: "string \<Rightarrow> error + IPNet" where
  "refParseCIDR s =
     (case split_on (CHR ''/'') s of
        [a, l] \<Rightarrow>
          (case (parseIPv4 a, dtoi l) of
             (Some ip, Some n) \<Rightarrow>
               if n \<le> 32
               then Inr \<lparr>IP = map2 (AND) ip (CIDRMask (int n) 32), Mask = CIDRMask (int n) 32\<rparr>
               else Inl (ErrorNew (''invalid CIDR address: '' @ s))
           | _ \<Rightarrow> Inl (ErrorNew (''invalid CIDR address: '' @ s)))
      | _ \<Rightarrow> Inl (ErrorNew (''invalid CIDR address: '' @ s)))"

subsection \<open>Configuration and allocation\<close>

definition refLoadNet :: "string \<Rightarrow> kernel \<Rightarrow> (error + Net) \<times> kernel" where
  "refLoadNet path k =
     (case netconfs k path of
        None \<Rightarrow> (Inl (Errno ENOENT), k)
      | Some n \<Rightarrow> (Inr n, k))"

definition refAllocPtP ::
  "UUID \<Rightarrow> string \<Rightarrow> string \<Rightarrow> string \<Rightarrow> kernel \<Rightarrow> (error + IP list) \<times> kernel" where
  "refAllocPtP cid netConf ifName args k = (allocator k cid netConf ifName args, k)"

subsection \<open>Namespaces\<close>

definition refOpenNS :: "string \<Rightarrow> kernel \<Rightarrow> (error + File) \<times> kernel" where
  "refOpenNS path k =
     (case nsfiles k path of
        None \<Rightarrow> (Inl (Errno ENOENT), k)
      | Some n \<Rightarrow> (Inr n, k))"

definition refSetNS :: "File \<Rightarrow> kernel \<Rightarrow> error option \<times> kernel" where
  "refSetNS n k =
     (case rejects k (KSetNS n) of
        Some e \<Rightarrow> (Some (Errno e), k)
      | None \<Rightarrow> (None, k\<lparr>cur := n\<rparr>))"

subsection \<open>Links, addresses and routes\<close>

text \<open>
  Modelled from the spec: \<^verbatim>\<open>util.SetupVeth\<close>, whose code is not among the source files.
  Section 4.5: it creates two linked interfaces in the active namespace, the host end named
  from the seed, the container end named \<open>ifName\<close> and given the container's net; it moves
  the host end to the namespace of the handle and fails on a name collision or when the
  kernel rejects the creation. An interface that moves keeps its index only if the index is
  free in the namespace it moves to (section 3), so the link returned for the host end
  carries the index the interface had where it was created.
\<close>

definition refSetupVeth ::
  "string \<Rightarrow> string \<Rightarrow> IPNet \<Rightarrow> File \<Rightarrow> kernel \<Rightarrow> (error + Link \<times> Link) \<times> kernel" where
  "refSetupVeth entropy ifName ipn hostNS k =
     (let hostName = vethname k entropy;
          here = ifaces (spaces k (cur k));
          there = ifaces (spaces k hostNS);
          ci = fresh_index here;
          hi = Suc ci
      in
      (case rejects k (KVeth hostName ifName) of
         Some e \<Rightarrow> (Inl (LinkCreateError hostName (Errno e)), k)
       | None \<Rightarrow>
           if by_name hostName here \<noteq> None \<or> by_name ifName here \<noteq> None
              \<or> by_name hostName there \<noteq> None \<or> hostName = ifName
           then (Inl (LinkCreateError hostName (Errno EEXIST)), k)
           else
             (let hi' = (if by_index hi there = None then hi else fresh_index there);
                  k1 = in_ns (cur k)
                         (\<lambda>s. s\<lparr>ifaces := ifaces s @
                            [\<lparr>if_name = ifName, if_index = ci, if_addrs = [ipn]\<rparr>]\<rparr>) k;
                  k2 = in_ns hostNS
                         (\<lambda>s. s\<lparr>ifaces := ifaces s @
                            [\<lparr>if_name = hostName, if_index = hi', if_addrs = []\<rparr>]\<rparr>) k1
              in (Inr (\<lparr>Name = hostName, Index = hi\<rparr>, \<lparr>Name = ifName, Index = ci\<rparr>), k2))))"

text \<open>
  Modelled from the spec: \<^verbatim>\<open>util.AddRoute\<close> and \<^verbatim>\<open>util.AddHostRoute\<close>, whose code is not
  among the source files. Section 4.6: the route is added in the active namespace over the
  given interface, and the call fails if the kernel rejects it; a route to a destination
  that already has one is rejected with \<open>EEXIST\<close>. \<^verbatim>\<open>cmdAdd\<close> itself tests the error of
  \<^verbatim>\<open>AddHostRoute\<close> with \<^verbatim>\<open>os.IsExist\<close> (source line 107), so the error is returned
  to it here.
\<close>

definition route_add :: "IPNet \<Rightarrow> IP option \<Rightarrow> Link \<Rightarrow> kernel \<Rightarrow> error option \<times> kernel" where
  "route_add dst gw link k =
     (case rejects k (KRouteAdd dst) of
        Some e \<Rightarrow> (Some (Errno e), k)
      | None \<Rightarrow>
          if by_index (Index link) (ifaces (spaces k (cur k))) = None
          then (Some (Errno ENODEV), k)
          else if list_ex (\<lambda>r. rt_dst r = dst) (routes (spaces k (cur k)))
          then (Some (Errno EEXIST), k)
          else (None, in_ns (cur k)
                  (\<lambda>s. s\<lparr>routes := routes s @
                     [\<lparr>rt_dst = dst, rt_gw = gw, rt_dev = Index link\<rparr>]\<rparr>) k))"

definition refAddRoute :: "IPNet \<Rightarrow> IP \<Rightarrow> Link \<Rightarrow> kernel \<Rightarrow> error option \<times> kernel" where
  "refAddRoute dst gw link k = route_add dst (Some gw) link k"

definition refAddHostRoute :: "IPNet \<Rightarrow> IP option \<Rightarrow> Link \<Rightarrow> kernel \<Rightarrow> error option \<times> kernel" where
  "refAddHostRoute dst gw link k = route_add dst gw link k"

text \<open>
  \<^verbatim>\<open>netlink.LinkByName\<close> and \<^verbatim>\<open>netlink.AddrAdd\<close> act on the active namespace; the
  second finds the interface by the index of the link it is given.
\<close>

definition refLinkByName :: "string \<Rightarrow> kernel \<Rightarrow> (error + Link) \<times> kernel" where
  "refLinkByName n k =
     (case by_name n (ifaces (spaces k (cur k))) of
        None \<Rightarrow> (Inl (ErrorNew ''Link not found''), k)
      | Some i \<Rightarrow> (Inr \<lparr>Name = if_name i, Index = if_index i\<rparr>, k))"

definition refAddrAdd :: "Link \<Rightarrow> Addr \<Rightarrow> kernel \<Rightarrow> error option \<times> kernel" where
  "refAddrAdd link addr k =
     (case rejects k (KAddrAdd (Index link)) of
        Some e \<Rightarrow> (Some (Errno e), k)
      | None \<Rightarrow>
          if by_index (Index link) (ifaces (spaces k (cur k))) = None
          then (Some (Errno ENODEV), k)
          else (None, in_ns (cur k)
                  (\<lambda>s. s\<lparr>ifaces := map (\<lambda>i. if if_index i = Index link
                                           then i\<lparr>if_addrs := if_addrs i @ [addr_IPNet addr]\<rparr>
                                           else i) (ifaces s)\<rparr>) k))"

text \<open>
  Modelled from the spec: \<^verbatim>\<open>util.DelLinkByName\<close>, whose code is not among the source
  files. Section 4.3: it deletes the interface with the given name in the active namespace;
  if the interface does not exist this is a success; any other kernel-level failure is
  reported as \<open>LinkDeleteError\<close>. The routes over a deleted interface go with it.
\<close>

definition refDelLinkByName :: "string \<Rightarrow> kernel \<Rightarrow> error option \<times> kernel" where
  "refDelLinkByName n k =
     (case by_name n (ifaces (spaces k (cur k))) of
        None \<Rightarrow> (None, k)
      | Some i \<Rightarrow>
          (case rejects k (KLinkDel n) of
             Some e \<Rightarrow> (Some (LinkDeleteError n (Errno e)), k)
           | None \<Rightarrow>
               (None, in_ns (cur k)
                  (\<lambda>s. s\<lparr>ifaces := filter (\<lambda>j. if_name j \<noteq> n) (ifaces s),
                         routes := filter (\<lambda>r. rt_dev r \<noteq> if_index i) (routes s)\<rparr>) k)))"

definition refdeps :: "kernel deps" where
  "refdeps =
     \<lparr>NewUUID = refNewUUID, LoadNet = refLoadNet, AllocPtP = refAllocPtP,
      OpenNS = refOpenNS, CurrentNS = cur, SetNS = refSetNS, SetupVeth = refSetupVeth,
      ParseCIDR = refParseCIDR, AddRoute = refAddRoute, AddHostRoute = refAddHostRoute,
      LinkByName = refLinkByName, AddrAdd = refAddrAdd, DelLinkByName = refDelLinkByName\<rparr>"

subsection \<open>A host and one container\<close>

text \<open>
  The host namespace is number 0 and holds \<^verbatim>\<open>lo\<close> and \<^verbatim>\<open>eth0\<close>; the container's
  namespace is number 1, reached through \<^verbatim>\<open>/var/run/netns/c1\<close>, and holds \<^verbatim>\<open>lo\<close>. The
  allocator hands out 10.0.0.0 and 10.0.0.1. \<open>world0\<close> takes the routes of the one network
  configuration and the table of rejected kernel operations.
\<close>

definition hostns0 :: netns where
  "hostns0 =
     \<lparr>ifaces = [\<lparr>if_name = ''lo'', if_index = 1, if_addrs = []\<rparr>,
                \<lparr>if_name = ''eth0'', if_index = 2, if_addrs = []\<rparr>,
                \<lparr>if_name = ''docker0'', if_index = 3, if_addrs = []\<rparr>],
      routes = []\<rparr>"

definition contns0 :: netns where
  "contns0 = \<lparr>ifaces = [\<lparr>if_name = ''lo'', if_index = 1, if_addrs = []\<rparr>], routes = []\<rparr>"

definition world0 :: "string list \<Rightarrow> (kop \<Rightarrow> nat option) \<Rightarrow> kernel" where
  "world0 rs rej =
     \<lparr>cur = 0,
      spaces = (\<lambda>n. if n = 0 then hostns0 else contns0),
      nsfiles = (\<lambda>p. if p = ''/var/run/netns/c1'' then Some 1 else None),
      netconfs = (\<lambda>p. if p = ''ptp.conf'' then Some \<lparr>Routes = rs\<rparr> else None),
      allocator = (\<lambda>cid netConf ifName args. Inr [[10, 0, 0, 0], [10, 0, 0, 1]]),
      vethname = (\<lambda>s. ''veth'' @ take 4 s),
      rejects = rej\<rparr>"

definition start :: "'w \<Rightarrow> 'w state" where
  "start w = \<lparr>world = w, out = [], logged = [], calls = []\<rparr>"

definition contID0 :: string where
  "contID0 = ''6ba7b810-9dad-11d1-80b4-00c04fd430c8''"


section \<open>The structure of a run\<close>

text \<open>
  \<open>hostSide\<close> names the statements of \<^verbatim>\<open>cmdAdd\<close> that follow the namespace callback
  (source lines 91 to 113), so that they can be reasoned about on their own;
  \<open>cmdAdd_hostSide\<close> shows that \<^verbatim>\<open>cmdAdd\<close> is its first steps followed by \<open>hostSide\<close>.
\<close>

definition hostSide :: "'w deps \<Rightarrow> IP \<Rightarrow> string \<Rightarrow> string \<Rightarrow> 'w state \<Rightarrow> outcome \<times> 'w state" where
  "hostSide d hostIP hostVethName contIPNet st3 =
     (case invoke (CallLinkByName hostVethName) (LinkByName d hostVethName) st3 of
        (Inl err, st4) \<Rightarrow>
          (Fail (Errorf ''failed to lookup %q: %v'' [ArgStr hostVethName, ArgErr err]), st4)
      | (Inr hostVeth, st4) \<Rightarrow>
     (let ipn = \<lparr>IP = hostIP, Mask = CIDRMask 31 32\<rparr>;
          addr = \<lparr>addr_IPNet = ipn, addr_Label = ''''\<rparr>
      in
     (case invoke (CallAddrAdd hostVeth addr) (AddrAdd d hostVeth addr) st4 of
        (Some err, st5) \<Rightarrow> (Fail (Errorf ''failed to add IP addr to veth: %v'' [ArgErr err]), st5)
      | (None, st5) \<Rightarrow>
     (case invoke (CallAddHostRoute ipn None hostVeth) (AddHostRoute d ipn None hostVeth) st5 of
        (err, st6) \<Rightarrow>
          if err \<noteq> None \<and> \<not> IsExist err
          then (Fail (Errorf ''failed to add route on host: %v'' [ArgErr (the err)]), st6)
          else (Done, Print contIPNet st6)))))"

lemma cmdAdd_hostSide:
  "cmdAdd d contID netns netConf ifName args st =
     (case NewUUID d contID of
        Inl err \<Rightarrow> (Fail (Errorf ''error parsing ContainerID: %v'' [ArgErr err]), st)
      | Inr cid \<Rightarrow>
     (case invoke (CallLoadNet netConf) (LoadNet d netConf) st of
        (Inl err, st1) \<Rightarrow> (Fail (Errorf ''failed to load %q: %v'' [ArgStr netConf, ArgErr err]), st1)
      | (Inr conf, st1) \<Rightarrow>
     (case invoke (CallAllocPtP cid netConf ifName args) (AllocPtP d cid netConf ifName args) st1 of
        (Inl err, st2) \<Rightarrow> (Fail err, st2)
      | (Inr ips, st2) \<Rightarrow>
     if length ips < 2 then (Panic ''runtime error: index out of range'', st2)
     else
     (case WithNetNSPath d netns (addCallback d contID ifName conf (ips ! 0) (ips ! 1))
             (st2, ('''', '''')) of
        (Some err, st3, v) \<Rightarrow> (Fail err, st3)
      | (None, st3, (hostVethName, contIPNet)) \<Rightarrow>
          hostSide d (ips ! 0) hostVethName contIPNet st3))))"
  unfolding cmdAdd_def hostSide_def Let_def ..

subsection \<open>What \<open>invoke\<close> changes\<close>

lemma invoke_out: "invoke c f st = (r, st') \<Longrightarrow> out st' = out st"
  by (auto simp: invoke_def split: prod.splits)

lemma invoke_logged: "invoke c f st = (r, st') \<Longrightarrow> logged st' = logged st"
  by (auto simp: invoke_def split: prod.splits)

lemma invoke_calls: "invoke c f st = (r, st') \<Longrightarrow> calls st' = calls st @ [c]"
  by (auto simp: invoke_def split: prod.splits)

lemma invoke_world: "invoke c f st = (r, st') \<Longrightarrow> f (world st) = (r, world st')"
  by (auto simp: invoke_def split: prod.splits)

lemma invoke_eq:
  "invoke c f st = (fst (f (world st)), st\<lparr>world := snd (f (world st)), calls := calls st @ [c]\<rparr>)"
  by (simp add: invoke_def split: prod.splits)

subsection \<open>Case analysis of the steps\<close>

lemma addCallback_cases:
  obtains
    (veth) err st1 where
      "invoke (CallSetupVeth (contID @ ifName) ifName \<lparr>IP = contIP, Mask = CIDRMask 31 32\<rparr> hostNS)
         (SetupVeth d (contID @ ifName) ifName \<lparr>IP = contIP, Mask = CIDRMask 31 32\<rparr> hostNS) st
         = (Inl err, st1)"
      "addCallback d contID ifName conf hostIP contIP hostNS (st, v) = (Some err, st1, v)"
  | (routes) hostVeth contVeth st1 err st2 where
      "invoke (CallSetupVeth (contID @ ifName) ifName \<lparr>IP = contIP, Mask = CIDRMask 31 32\<rparr> hostNS)
         (SetupVeth d (contID @ ifName) ifName \<lparr>IP = contIP, Mask = CIDRMask 31 32\<rparr> hostNS) st
         = (Inr (hostVeth, contVeth), st1)"
      "addRoutes d hostIP contVeth (Routes conf) st1 = (Some err, st2)"
      "addCallback d contID ifName conf hostIP contIP hostNS (st, v) = (Some err, st2, v)"
  | (ok) hostVeth contVeth st1 st2 where
      "invoke (CallSetupVeth (contID @ ifName) ifName \<lparr>IP = contIP, Mask = CIDRMask 31 32\<rparr> hostNS)
         (SetupVeth d (contID @ ifName) ifName \<lparr>IP = contIP, Mask = CIDRMask 31 32\<rparr> hostNS) st
         = (Inr (hostVeth, contVeth), st1)"
      "addRoutes d hostIP contVeth (Routes conf) st1 = (None, st2)"
      "addCallback d contID ifName conf hostIP contIP hostNS (st, v)
         = (None, st2, (Name hostVeth, IPNet_String \<lparr>IP = contIP, Mask = CIDRMask 31 32\<rparr>))"
proof -
  let ?ipn = "\<lparr>IP = contIP, Mask = CIDRMask 31 32\<rparr>"
  obtain r st1 where s: "invoke (CallSetupVeth (contID @ ifName) ifName ?ipn hostNS)
         (SetupVeth d (contID @ ifName) ifName ?ipn hostNS) st = (r, st1)"
    by fastforce
  show thesis
  proof (cases r)
    case (Inl err)
    with s have "addCallback d contID ifName conf hostIP contIP hostNS (st, v) = (Some err, st1, v)"
      by (simp add: addCallback_def)
    with s Inl show thesis by (auto intro: veth)
  next
    case (Inr p)
    obtain hostVeth contVeth where p: "p = (hostVeth, contVeth)" by fastforce
    obtain e st2 where a: "addRoutes d hostIP contVeth (Routes conf) st1 = (e, st2)"
      by fastforce
    show thesis
    proof (cases e)
      case None
      with s Inr p a
      have "addCallback d contID ifName conf hostIP contIP hostNS (st, v)
              = (None, st2, (Name hostVeth, IPNet_String ?ipn))"
        by (simp add: addCallback_def)
      with s Inr p a None show thesis by (auto intro: ok)
    next
      case (Some err)
      with s Inr p a
      have "addCallback d contID ifName conf hostIP contIP hostNS (st, v) = (Some err, st2, v)"
        by (simp add: addCallback_def)
      with s Inr p a Some show thesis by (auto intro: routes)
    qed
  qed
qed

lemma WithNetNSPath_cases:
  obtains
    (noopen) err st1 where
      "invoke (CallOpenNS nspath) (OpenNS d nspath) st = (Inl err, st1)"
      "WithNetNSPath d nspath f (st, v) = (Some (NamespaceOpenError nspath err), st1, v)"
  | (noenter) ns st1 err st2 where
      "invoke (CallOpenNS nspath) (OpenNS d nspath) st = (Inr ns, st1)"
      "invoke (CallSetNS ns) (SetNS d ns) st1 = (Some err, st2)"
      "WithNetNSPath d nspath f (st, v) = (Some (NamespaceEnterError nspath err), st2, v)"
  | (norestore) ns st1 st2 r st3 v' err st4 where
      "invoke (CallOpenNS nspath) (OpenNS d nspath) st = (Inr ns, st1)"
      "invoke (CallSetNS ns) (SetNS d ns) st1 = (None, st2)"
      "f (CurrentNS d (world st)) (st2, v) = (r, st3, v')"
      "invoke (CallSetNS (CurrentNS d (world st))) (SetNS d (CurrentNS d (world st))) st3
         = (Some err, st4)"
      "WithNetNSPath d nspath f (st, v) = (Some (NamespaceRestoreError err r), st4, v')"
  | (ran) ns st1 st2 r st3 v' st4 where
      "invoke (CallOpenNS nspath) (OpenNS d nspath) st = (Inr ns, st1)"
      "invoke (CallSetNS ns) (SetNS d ns) st1 = (None, st2)"
      "f (CurrentNS d (world st)) (st2, v) = (r, st3, v')"
      "invoke (CallSetNS (CurrentNS d (world st))) (SetNS d (CurrentNS d (world st))) st3
         = (None, st4)"
      "WithNetNSPath d nspath f (st, v) = (r, st4, v')"
proof -
  let ?hns = "CurrentNS d (world st)"
  obtain r1 st1 where o: "invoke (CallOpenNS nspath) (OpenNS d nspath) st = (r1, st1)"
    by fastforce
  show thesis
  proof (cases r1)
    case (Inl err)
    with o have "WithNetNSPath d nspath f (st, v) = (Some (NamespaceOpenError nspath err), st1, v)"
      by (simp add: WithNetNSPath_def)
    with o Inl show thesis by (auto intro: noopen)
  next
    case (Inr ns)
    obtain r2 st2 where e: "invoke (CallSetNS ns) (SetNS d ns) st1 = (r2, st2)"
      by fastforce
    show thesis
    proof (cases r2)
      case (Some err)
      with o Inr e
      have "WithNetNSPath d nspath f (st, v) = (Some (NamespaceEnterError nspath err), st2, v)"
        by (simp add: WithNetNSPath_def)
      with o Inr e Some show thesis by (auto intro: noenter)
    next
      case None
      obtain r st3 v' where c: "f ?hns (st2, v) = (r, st3, v')"
        by (metis prod_cases3)
      obtain r4 st4 where b: "invoke (CallSetNS ?hns) (SetNS d ?hns) st3 = (r4, st4)"
        by fastforce
      show thesis
      proof (cases r4)
        case (Some err)
        with o Inr e None c b
        have "WithNetNSPath d nspath f (st, v) = (Some (NamespaceRestoreError err r), st4, v')"
          by (simp add: WithNetNSPath_def)
        with o Inr e None c b Some show thesis by (auto intro: norestore)
      next
        case rn: None
        with o Inr e None c b
        have "WithNetNSPath d nspath f (st, v) = (r, st4, v')"
          by (simp add: WithNetNSPath_def)
        with o Inr e None c b rn show thesis by (auto intro: ran)
      qed
    qed
  qed
qed

lemma hostSide_cases:
  obtains
    (nolink) err st4 where
      "invoke (CallLinkByName hostVethName) (LinkByName d hostVethName) st3 = (Inl err, st4)"
      "hostSide d hostIP hostVethName contIPNet st3 =
         (Fail (Errorf ''failed to lookup %q: %v'' [ArgStr hostVethName, ArgErr err]), st4)"
  | (noaddr) hostVeth st4 err st5 where
      "invoke (CallLinkByName hostVethName) (LinkByName d hostVethName) st3 = (Inr hostVeth, st4)"
      "invoke (CallAddrAdd hostVeth \<lparr>addr_IPNet = \<lparr>IP = hostIP, Mask = CIDRMask 31 32\<rparr>, addr_Label = ''''\<rparr>)
         (AddrAdd d hostVeth \<lparr>addr_IPNet = \<lparr>IP = hostIP, Mask = CIDRMask 31 32\<rparr>, addr_Label = ''''\<rparr>)
         st4 = (Some err, st5)"
      "hostSide d hostIP hostVethName contIPNet st3 =
         (Fail (Errorf ''failed to add IP addr to veth: %v'' [ArgErr err]), st5)"
  | (noroute) hostVeth st4 st5 err st6 where
      "invoke (CallLinkByName hostVethName) (LinkByName d hostVethName) st3 = (Inr hostVeth, st4)"
      "invoke (CallAddrAdd hostVeth \<lparr>addr_IPNet = \<lparr>IP = hostIP, Mask = CIDRMask 31 32\<rparr>, addr_Label = ''''\<rparr>)
         (AddrAdd d hostVeth \<lparr>addr_IPNet = \<lparr>IP = hostIP, Mask = CIDRMask 31 32\<rparr>, addr_Label = ''''\<rparr>)
         st4 = (None, st5)"
      "invoke (CallAddHostRoute \<lparr>IP = hostIP, Mask = CIDRMask 31 32\<rparr> None hostVeth)
         (AddHostRoute d \<lparr>IP = hostIP, Mask = CIDRMask 31 32\<rparr> None hostVeth) st5 = (Some err, st6)"
      "\<not> IsExist (Some err)"
      "hostSide d hostIP hostVethName contIPNet st3 =
         (Fail (Errorf ''failed to add route on host: %v'' [ArgErr err]), st6)"
  | (finished) hostVeth st4 st5 err st6 where
      "invoke (CallLinkByName hostVethName) (LinkByName d hostVethName) st3 = (Inr hostVeth, st4)"
      "invoke (CallAddrAdd hostVeth \<lparr>addr_IPNet = \<lparr>IP = hostIP, Mask = CIDRMask 31 32\<rparr>, addr_Label = ''''\<rparr>)
         (AddrAdd d hostVeth \<lparr>addr_IPNet = \<lparr>IP = hostIP, Mask = CIDRMask 31 32\<rparr>, addr_Label = ''''\<rparr>)
         st4 = (None, st5)"
      "invoke (CallAddHostRoute \<lparr>IP = hostIP, Mask = CIDRMask 31 32\<rparr> None hostVeth)
         (AddHostRoute d \<lparr>IP = hostIP, Mask = CIDRMask 31 32\<rparr> None hostVeth) st5 = (err, st6)"
      "err = None \<or> IsExist err"
      "hostSide d hostIP hostVethName contIPNet st3 = (Done, Print contIPNet st6)"
proof -
  let ?ipn = "\<lparr>IP = hostIP, Mask = CIDRMask 31 32\<rparr>"
  let ?addr = "\<lparr>addr_IPNet = ?ipn, addr_Label = ''''\<rparr>"
  obtain r1 st4 where l: "invoke (CallLinkByName hostVethName) (LinkByName d hostVethName) st3 = (r1, st4)"
    by fastforce
  show thesis
  proof (cases r1)
    case (Inl err)
    with l have "hostSide d hostIP hostVethName contIPNet st3 =
         (Fail (Errorf ''failed to lookup %q: %v'' [ArgStr hostVethName, ArgErr err]), st4)"
      by (simp add: hostSide_def)
    with l Inl show thesis by (auto intro: nolink)
  next
    case (Inr hostVeth)
    obtain r2 st5 where a: "invoke (CallAddrAdd hostVeth ?addr) (AddrAdd d hostVeth ?addr) st4 = (r2, st5)"
      by fastforce
    show thesis
    proof (cases r2)
      case (Some err)
      with l Inr a have "hostSide d hostIP hostVethName contIPNet st3 =
         (Fail (Errorf ''failed to add IP addr to veth: %v'' [ArgErr err]), st5)"
        by (simp add: hostSide_def)
      with l Inr a Some show thesis by (auto intro: noaddr)
    next
      case None
      obtain r3 st6 where h: "invoke (CallAddHostRoute ?ipn None hostVeth)
         (AddHostRoute d ?ipn None hostVeth) st5 = (r3, st6)"
        by fastforce
      show thesis
      proof (cases "r3 \<noteq> None \<and> \<not> IsExist r3")
        case True
        then obtain err where r3: "r3 = Some err" and ne: "\<not> IsExist (Some err)" by auto
        with l Inr a None h have "hostSide d hostIP hostVethName contIPNet st3 =
           (Fail (Errorf ''failed to add route on host: %v'' [ArgErr err]), st6)"
          by (simp add: hostSide_def)
        with l Inr a None h r3 ne show thesis by (auto intro: noroute)
      next
        case False
        with l Inr a None h
        have "hostSide d hostIP hostVethName contIPNet st3 = (Done, Print contIPNet st6)"
          by (auto simp: hostSide_def)
        moreover from False have "r3 = None \<or> IsExist r3" by auto
        ultimately show thesis using l Inr a None h by (auto intro: finished)
      qed
    qed
  qed
qed

lemma cmdAdd_cases:
  obtains
    (baduuid) err where
      "NewUUID d contID = Inl err"
      "cmdAdd d contID netns netConf ifName args st =
         (Fail (Errorf ''error parsing ContainerID: %v'' [ArgErr err]), st)"
  | (noconf) cid err st1 where
      "NewUUID d contID = Inr cid"
      "invoke (CallLoadNet netConf) (LoadNet d netConf) st = (Inl err, st1)"
      "cmdAdd d contID netns netConf ifName args st =
         (Fail (Errorf ''failed to load %q: %v'' [ArgStr netConf, ArgErr err]), st1)"
  | (noalloc) cid conf st1 err st2 where
      "NewUUID d contID = Inr cid"
      "invoke (CallLoadNet netConf) (LoadNet d netConf) st = (Inr conf, st1)"
      "invoke (CallAllocPtP cid netConf ifName args) (AllocPtP d cid netConf ifName args) st1
         = (Inl err, st2)"
      "cmdAdd d contID netns netConf ifName args st = (Fail err, st2)"
  | (short) cid conf st1 ips st2 where
      "NewUUID d contID = Inr cid"
      "invoke (CallLoadNet netConf) (LoadNet d netConf) st = (Inr conf, st1)"
      "invoke (CallAllocPtP cid netConf ifName args) (AllocPtP d cid netConf ifName args) st1
         = (Inr ips, st2)"
      "length ips < 2"
      "cmdAdd d contID netns netConf ifName args st =
         (Panic ''runtime error: index out of range'', st2)"
  | (nsfail) cid conf st1 ips st2 err st3 v where
      "NewUUID d contID = Inr cid"
      "invoke (CallLoadNet netConf) (LoadNet d netConf) st = (Inr conf, st1)"
      "invoke (CallAllocPtP cid netConf ifName args) (AllocPtP d cid netConf ifName args) st1
         = (Inr ips, st2)"
      "2 \<le> length ips"
      "WithNetNSPath d netns (addCallback d contID ifName conf (ips ! 0) (ips ! 1))
         (st2, ('''', '''')) = (Some err, st3, v)"
      "cmdAdd d contID netns netConf ifName args st = (Fail err, st3)"
  | (host) cid conf st1 ips st2 st3 hostVethName contIPNet where
      "NewUUID d contID = Inr cid"
      "invoke (CallLoadNet netConf) (LoadNet d netConf) st = (Inr conf, st1)"
      "invoke (CallAllocPtP cid netConf ifName args) (AllocPtP d cid netConf ifName args) st1
         = (Inr ips, st2)"
      "2 \<le> length ips"
      "WithNetNSPath d netns (addCallback d contID ifName conf (ips ! 0) (ips ! 1))
         (st2, ('''', '''')) = (None, st3, (hostVethName, contIPNet))"
      "cmdAdd d contID netns netConf ifName args st =
         hostSide d (ips ! 0) hostVethName contIPNet st3"
proof (cases "NewUUID d contID")
  case (Inl err)
  then have "cmdAdd d contID netns netConf ifName args st =
         (Fail (Errorf ''error parsing ContainerID: %v'' [ArgErr err]), st)"
    by (simp add: cmdAdd_hostSide)
  with Inl show thesis by (rule baduuid)
next
  case (Inr cid)
  obtain r1 st1 where l: "invoke (CallLoadNet netConf) (LoadNet d netConf) st = (r1, st1)"
    by fastforce
  show thesis
  proof (cases r1)
    case le: (Inl err)
    with Inr l have "cmdAdd d contID netns netConf ifName args st =
         (Fail (Errorf ''failed to load %q: %v'' [ArgStr netConf, ArgErr err]), st1)"
      by (simp add: cmdAdd_hostSide)
    with Inr l le show thesis by (auto intro: noconf)
  next
    case lc: (Inr conf)
    obtain r2 st2 where a: "invoke (CallAllocPtP cid netConf ifName args)
        (AllocPtP d cid netConf ifName args) st1 = (r2, st2)"
      by fastforce
    show thesis
    proof (cases r2)
      case ae: (Inl err)
      with Inr l lc a have "cmdAdd d contID netns netConf ifName args st = (Fail err, st2)"
        by (simp add: cmdAdd_hostSide)
      with Inr l lc a ae show thesis by (auto intro: noalloc)
    next
      case ai: (Inr ips)
      show thesis
      proof (cases "length ips < 2")
        case True
        with Inr l lc a ai have "cmdAdd d contID netns netConf ifName args st =
            (Panic ''runtime error: index out of range'', st2)"
          by (simp add: cmdAdd_hostSide)
        with Inr l lc a ai True show thesis by (auto intro: short)
      next
        case False
        then have two: "2 \<le> length ips" by simp
        obtain r3 st3 v where w: "WithNetNSPath d netns
            (addCallback d contID ifName conf (ips ! 0) (ips ! 1)) (st2, ('''', '''')) = (r3, st3, v)"
          by (metis prod_cases3)
        show thesis
        proof (cases r3)
          case (Some err)
          with Inr l lc a ai False w
          have "cmdAdd d contID netns netConf ifName args st = (Fail err, st3)"
            by (simp add: cmdAdd_hostSide)
          with Inr l lc a ai two w Some show thesis by (auto intro: nsfail)
        next
          case None
          obtain hostVethName contIPNet where v: "v = (hostVethName, contIPNet)" by fastforce
          with Inr l lc a ai False w None
          have "cmdAdd d contID netns netConf ifName args st =
              hostSide d (ips ! 0) hostVethName contIPNet st3"
            by (simp add: cmdAdd_hostSide)
          with Inr l lc a ai two w None v show thesis by (auto intro: host)
        qed
      qed
    qed
  qed
qed

subsection \<open>What a run leaves alone\<close>

text \<open>
  Collaborators act on the world only: standard output and the log change only where the
  plugin itself prints.
\<close>

lemma invoke_frame: "invoke c f st = (r, st') \<Longrightarrow> out st' = out st \<and> logged st' = logged st"
  by (auto simp: invoke_def split: prod.splits)

lemma addRoutes_frame:
  "addRoutes d hostIP contVeth rs st = (r, st') \<Longrightarrow> out st' = out st \<and> logged st' = logged st"
proof (induction rs arbitrary: st)
  case Nil
  then show ?case by simp
next
  case (Cons a rs)
  show ?case
  proof (cases "ParseCIDR d a")
    case (Inl e)
    with Cons.prems show ?thesis by simp
  next
    case (Inr dst)
    obtain x s1 where inv:
      "invoke (CallAddRoute dst hostIP contVeth) (AddRoute d dst hostIP contVeth) st = (x, s1)"
      by fastforce
    show ?thesis
    proof (cases x)
      case None
      with Cons.prems Inr inv have "addRoutes d hostIP contVeth rs s1 = (r, st')" by simp
      from Cons.IH[OF this] invoke_frame[OF inv] show ?thesis by simp
    next
      case (Some e)
      with Cons.prems Inr inv have "st' = s1" by simp
      with invoke_frame[OF inv] show ?thesis by simp
    qed
  qed
qed

lemma addCallback_frame:
  assumes "addCallback d contID ifName conf hostIP contIP hostNS (st, v) = (r, st', v')"
  shows "out st' = out st \<and> logged st' = logged st"
  by (rule addCallback_cases[where d=d and contID=contID and ifName=ifName and conf=conf
        and hostIP=hostIP and contIP=contIP and hostNS=hostNS and st=st and v=v])
     (use assms in \<open>auto dest!: invoke_frame addRoutes_frame\<close>)

lemma WithNetNSPath_frame:
  assumes "WithNetNSPath d p f (st, v) = (r, st', v')"
    and "\<And>h s u r s' u'. f h (s, u) = (r, s', u') \<Longrightarrow> out s' = out s \<and> logged s' = logged s"
  shows "out st' = out st \<and> logged st' = logged st"
  by (rule WithNetNSPath_cases[where d=d and nspath=p and f=f and st=st and v=v])
     (use assms(1) in \<open>auto dest!: invoke_frame assms(2)\<close>)

lemma hostSide_frame:
  assumes "hostSide d hostIP hostVethName contIPNet st3 = (r, st')"
  shows "logged st' = logged st3 \<and> out st' = (if r = Done then out st3 @ [contIPNet] else out st3)"
  by (rule hostSide_cases[where d=d and hostIP=hostIP and hostVethName=hostVethName
        and contIPNet=contIPNet and ?st3.0=st3])
     (use assms in \<open>auto simp: Print_def dest!: invoke_frame\<close>)

lemma cmdDel_frame:
  "out (snd (cmdDel d contID netns netConf ifName args st)) = out st
   \<and> logged (snd (cmdDel d contID netns netConf ifName args st)) = logged st"
proof -
  let ?f = "\<lambda>hostNS (s, v). case invoke (CallDelLinkByName ifName) (DelLinkByName d ifName) s of
                 (r, s') \<Rightarrow> (r, s', v)"
  obtain r st' v where w: "WithNetNSPath d netns ?f (st, ()) = (r, st', v)"
    by (metis prod_cases3)
  have "out st' = out st \<and> logged st' = logged st"
    by (rule WithNetNSPath_frame[OF w]) (auto split: prod.splits dest!: invoke_frame)
  with w show ?thesis
    by (cases r) (simp_all add: cmdDel_def)
qed

lemma cmdAdd_logged: "logged (snd (cmdAdd d contID netns netConf ifName args st)) = logged st"
proof (cases rule: cmdAdd_cases[where d=d and contID=contID and netns=netns and netConf=netConf
        and ifName=ifName and args=args and st=st])
  case (baduuid err)
  then show ?thesis by simp
next
  case (noconf cid err st1)
  then show ?thesis by (auto dest!: invoke_frame)
next
  case (noalloc cid conf st1 err st2)
  then show ?thesis by (auto dest!: invoke_frame)
next
  case (short cid conf st1 ips st2)
  then show ?thesis by (auto dest!: invoke_frame)
next
  case (nsfail cid conf st1 ips st2 err st3 v)
  from WithNetNSPath_frame[OF nsfail(5) addCallback_frame] have "logged st3 = logged st2" by simp
  with nsfail show ?thesis by (auto dest!: invoke_frame)
next
  case (host cid conf st1 ips st2 st3 hostVethName contIPNet)
  from WithNetNSPath_frame[OF host(5) addCallback_frame] have "logged st3 = logged st2" by simp
  moreover have "logged (snd (hostSide d (ips ! 0) hostVethName contIPNet st3)) = logged st3"
    using hostSide_frame[of d "ips ! 0" hostVethName contIPNet st3] by (metis prod.collapse)
  ultimately show ?thesis using host by (auto dest!: invoke_frame)
qed



section \<open>Runs in the reference world\<close>

definition uuid0 :: UUID where
  "uuid0 = [0x6b, 0xa7, 0xb8, 0x10, 0x9d, 0xad, 0x11, 0xd1, 0x80, 0xb4, 0x00, 0xc0, 0x4f, 0xd4, 0x30, 0xc8]"

definition world_short :: kernel where
  "world_short =
     (world0 [] (\<lambda>op. None))\<lparr>allocator := (\<lambda>cid netConf ifName args. Inr [[10, 0, 0, 0]])\<rparr>"

lemma refNewUUID_contID0: "NewUUID refdeps contID0 = Inr uuid0"
  by code_simp

lemma CIDRMask_31_32: "CIDRMask 31 32 = [0xff, 0xff, 0xff, 0xfe]"
  by code_simp

lemma simpleMaskLength_31: "simpleMaskLength [0xff, 0xff, 0xff, 0xfe] = Some 31"
  by code_simp

lemma itoa_31: "itoa 31 = ''31''"
  by code_simp

lemma IPNet_String_ptp:
  "length ip = 4 \<Longrightarrow> IPNet_String \<lparr>IP = ip, Mask = CIDRMask 31 32\<rparr> = dotted ip @ ''/31''"
  by (simp add: IPNet_String_def networkNumberAndMask_def To4_def CIDRMask_31_32
      simpleMaskLength_31 itoa_31 IP_String_def del: simpleMaskLength.simps itoa.simps)

section \<open>The allocation result is indexed without a length check\<close>

text \<open>
  Claim C10. \<^verbatim>\<open>cmdAdd\<close> reads positions 0 and 1 of the slice that the IP allocator
  returns and does not look at its length first. Whenever the identity parses, the
  configuration loads and the allocator returns, without error, a slice of fewer than two
  addresses, \<^verbatim>\<open>cmdAdd\<close> does not return an error value: it panics with an index out of
  range, right after the allocation.
\<close>

theorem cmdAdd_short_allocation_panics:
  assumes "NewUUID d contID = Inr cid"
    and "invoke (CallLoadNet netConf) (LoadNet d netConf) st = (Inr conf, st1)"
    and "invoke (CallAllocPtP cid netConf ifName args) (AllocPtP d cid netConf ifName args) st1
           = (Inr ips, st2)"
    and "length ips < 2"
  shows "cmdAdd d contID netns netConf ifName args st
           = (Panic ''runtime error: index out of range'', st2)"
  using assms by (simp add: cmdAdd_def)

theorem cmdAdd_short_allocation_panics_witness:
  "fst (cmdAdd refdeps contID0 ''/var/run/netns/c1'' ''ptp.conf'' ''eth0'' '''' (start world_short))
     = Panic ''runtime error: index out of range''"
proof -
  define s1 where
    "s1 = snd (invoke (CallLoadNet ''ptp.conf'') (LoadNet refdeps ''ptp.conf'') (start world_short))"
  define s2 where
    "s2 = snd (invoke (CallAllocPtP uuid0 ''ptp.conf'' ''eth0'' '''')
                 (AllocPtP refdeps uuid0 ''ptp.conf'' ''eth0'' '''') s1)"
  have h2: "invoke (CallLoadNet ''ptp.conf'') (LoadNet refdeps ''ptp.conf'') (start world_short)
              = (Inr \<lparr>Routes = []\<rparr>, s1)"
    unfolding s1_def
    by (simp add: invoke_eq refdeps_def refLoadNet_def world_short_def world0_def start_def)
  have h3: "invoke (CallAllocPtP uuid0 ''ptp.conf'' ''eth0'' '''')
              (AllocPtP refdeps uuid0 ''ptp.conf'' ''eth0'' '''') s1 = (Inr [[10, 0, 0, 0]], s2)"
    unfolding s2_def s1_def
    by (simp add: invoke_eq refdeps_def refLoadNet_def refAllocPtP_def world_short_def
        world0_def start_def)
  have h4: "length [[10, 0, 0, 0 :: byte]] < 2" by simp
  from cmdAdd_short_allocation_panics [OF refNewUUID_contID0 h2 h3 h4]
  show ?thesis by simp
qed

end
